theory Spec2Isabelle
  imports Complex_Main
begin

section \<open>Numbers and host primitives\<close>

text \<open>
  The component is written in TypeScript and GLSL; every number in it is a floating
  point value.  The development reads each of them as a real number, so the arithmetic
  below is the exact arithmetic that the source's formulas denote: rounding, infinities
  and NaN are outside the model.  Values that the source produces with \<^verbatim>\<open>Math.ceil\<close>
  are integers.
\<close>

text \<open>
  The remainder operator \<^verbatim>\<open>%\<close> of JavaScript truncates the quotient towards zero, so the
  result carries the sign of the dividend.  For a zero divisor JavaScript yields NaN; the
  source only divides by a width it has tested to be positive.
\<close>

definition trunc_quot :: "real \<Rightarrow> int" where
  "trunc_quot q = (if 0 \<le> q then \<lfloor>q\<rfloor> else \<lceil>q\<rceil>)"

definition js_rem :: "real \<Rightarrow> real \<Rightarrow> real" where
  "js_rem x y = x - y * of_int (trunc_quot (x / y))"

section \<open>The logo loop (ticker)\<close>

text \<open>\<^verbatim>\<open>ANIMATION_CONFIG\<close>\<close>

definition SMOOTH_TAU :: real where
  "SMOOTH_TAU = 0.25"

definition MIN_COPIES :: int where
  "MIN_COPIES = 2"

definition COPY_HEADROOM :: int where
  "COPY_HEADROOM = 2"

datatype direction = Left | Right

text \<open>The memoised \<^verbatim>\<open>targetVelocity\<close> of \<^verbatim>\<open>LogoLoop\<close>.\<close>

definition targetVelocity :: "real \<Rightarrow> direction \<Rightarrow> real" where
  "targetVelocity speed dir =
     (let magnitude = \<bar>speed\<bar>;
          directionMultiplier = (if dir = Left then 1 else - 1);
          speedMultiplier = (if speed < 0 then - 1 else 1)
      in magnitude * directionMultiplier * speedMultiplier)"

text \<open>
  The two pieces of React state that \<^verbatim>\<open>updateDimensions\<close> writes.  They start at
  \<^verbatim>\<open>0\<close> and \<^verbatim>\<open>MIN_COPIES\<close>.
\<close>

record dimensions =
  seqWidth :: int
  copyCount :: int

definition initial_dimensions :: dimensions where
  "initial_dimensions = \<lparr>seqWidth = 0, copyCount = MIN_COPIES\<rparr>"

text \<open>
  \<^verbatim>\<open>updateDimensions\<close>: the two measurements are \<open>None\<close> when the element is not
  mounted (the source then reads \<^verbatim>\<open>0\<close> through \<^verbatim>\<open>??\<close>).  Nothing is written unless the
  measured sequence width is positive.
\<close>

definition updateDimensions :: "real option \<Rightarrow> real option \<Rightarrow> dimensions \<Rightarrow> dimensions" where
  "updateDimensions container_clientWidth seq_rect_width d =
     (let containerWidth = (case container_clientWidth of None \<Rightarrow> 0 | Some w \<Rightarrow> w);
          sequenceWidth = (case seq_rect_width of None \<Rightarrow> 0 | Some w \<Rightarrow> w)
      in if sequenceWidth > 0
         then (let copiesNeeded = \<lceil>containerWidth / sequenceWidth\<rceil> + COPY_HEADROOM
               in \<lparr>seqWidth = \<lceil>sequenceWidth\<rceil>, copyCount = max MIN_COPIES copiesNeeded\<rparr>)
         else d)"

text \<open>The refs that the animation frame callback reads and writes.\<close>

record ticker =
  lastTimestamp :: "real option"
  offset :: real
  velocity :: real

definition initial_ticker :: ticker where
  "initial_ticker = \<lparr>lastTimestamp = None, offset = 0, velocity = 0\<rparr>"

text \<open>The wrap \<^verbatim>\<open>((x % w) + w) % w\<close>, used on mount and in every frame.\<close>

definition wrap_offset :: "real \<Rightarrow> int \<Rightarrow> real" where
  "wrap_offset x w = js_rem (js_rem x (of_int w) + of_int w) (of_int w)"

text \<open>
  The body of the animation effect before the first frame is requested: the stored offset
  is wrapped to the current sequence width.
\<close>

definition ticker_effect :: "int \<Rightarrow> ticker \<Rightarrow> ticker" where
  "ticker_effect w s = (if w > 0 then s\<lparr>offset := wrap_offset (offset s) w\<rparr> else s)"

text \<open>The cleanup of the animation effect forgets the last timestamp.\<close>

definition ticker_cleanup :: "ticker \<Rightarrow> ticker" where
  "ticker_cleanup s = s\<lparr>lastTimestamp := None\<rparr>"

text \<open>The easing step on the velocity, with the frame's \<^verbatim>\<open>deltaTime\<close> in seconds.\<close>

definition ease_velocity :: "real \<Rightarrow> real \<Rightarrow> real \<Rightarrow> real" where
  "ease_velocity target deltaTime v =
     (let easingFactor = 1 - exp (- deltaTime / SMOOTH_TAU)
      in v + (target - v) * easingFactor)"

text \<open>The time since the previous frame, in seconds, as \<^verbatim>\<open>animate\<close> computes it.\<close>

definition frame_delta :: "real option \<Rightarrow> real \<Rightarrow> real" where
  "frame_delta lastTs timestamp =
     (let l = (case lastTs of None \<Rightarrow> timestamp | Some l \<Rightarrow> l)
      in max 0 (timestamp - l) / 1000)"

text \<open>\<^verbatim>\<open>animate\<close>: one animation frame at \<open>timestamp\<close> (milliseconds).\<close>

definition animate :: "real \<Rightarrow> int \<Rightarrow> real \<Rightarrow> ticker \<Rightarrow> ticker" where
  "animate target w timestamp s =
     (let deltaTime = frame_delta (lastTimestamp s) timestamp;
          v = ease_velocity target deltaTime (velocity s);
          s1 = s\<lparr>lastTimestamp := Some timestamp, velocity := v\<rparr>
      in if w > 0
         then s1\<lparr>offset := wrap_offset (offset s + v * deltaTime) w\<rparr>
         else s1)"

text \<open>The states after each of a sequence of frames, in order.\<close>

fun animate_trace :: "real \<Rightarrow> int \<Rightarrow> real list \<Rightarrow> ticker \<Rightarrow> ticker list" where
  "animate_trace target w [] s = []"
| "animate_trace target w (t # ts) s =
     (let s' = animate target w t s in s' # animate_trace target w ts s')"

text \<open>The state after the last of a sequence of frames.\<close>

fun animate_all :: "real \<Rightarrow> int \<Rightarrow> real list \<Rightarrow> ticker \<Rightarrow> ticker" where
  "animate_all target w [] s = s"
| "animate_all target w (t # ts) s = animate_all target w ts (animate target w t s)"

text \<open>The seconds that a sequence of frames covers: the sum of their \<^verbatim>\<open>deltaTime\<close>.\<close>

fun total_delta :: "real option \<Rightarrow> real list \<Rightarrow> real" where
  "total_delta lastTs [] = 0"
| "total_delta lastTs (t # ts) = frame_delta lastTs t + total_delta (Some t) ts"

section \<open>The shader's parameters\<close>

type_synonym vec2 = "real \<times> real"
type_synonym vec3 = "real \<times> real \<times> real"
type_synonym vec4 = "real \<times> real \<times> real \<times> real"
type_synonym mat2 = "vec2 \<times> vec2"

text \<open>
  The uniforms of the fragment shader, as the program's uniform table holds them.  The
  sampler \<^verbatim>\<open>uLogoTexture\<close> is not a number: the texture it reads is part of the
  surface state below.
\<close>

record uniforms =
  iTime :: real
  iResolution :: vec3
  uScale :: real
  uGridMul :: vec2
  uDigitSize :: real
  uScanlineIntensity :: real
  uGlitchAmount :: real
  uFlickerAmount :: real
  uNoiseAmp :: real
  uChromaticAberration :: real
  uDither :: real
  uCurvature :: real
  uTint :: vec3
  uMouse :: vec2
  uMouseStrength :: real
  uUseMouse :: real
  uPageLoadProgress :: real
  uUsePageLoadAnimation :: real
  uBrightness :: real
  uLogoHeight :: real
  uHasLogo :: real

text \<open>
  The properties of \<^verbatim>\<open>FaultyTerminalWithLogo\<close> that reach the shader or the frame
  callback.  \<open>tintVec\<close> and \<open>ditherValue\<close> are the two memoised values derived from the
  \<^verbatim>\<open>tint\<close> and \<^verbatim>\<open>dither\<close> properties.
\<close>

record props =
  scale :: real
  gridMul :: vec2
  digitSize :: real
  timeScale :: real
  pause :: bool
  scanlineIntensity :: real
  glitchAmount :: real
  flickerAmount :: real
  noiseAmp :: real
  chromaticAberration :: real
  ditherValue :: real
  curvature :: real
  tintVec :: vec3
  mouseReact :: bool
  mouseStrength :: real
  dpr :: real
  pageLoadAnimation :: bool
  brightness :: real

section \<open>The frame callback of the terminal\<close>

text \<open>
  The refs of the component that outlive a re-run of its effect, and the uniform table of
  the program that the current run of the effect has created.
\<close>

record frame_state =
  mouseRef :: vec2
  smoothMouseRef :: vec2
  frozenTimeRef :: real
  loadAnimationStartRef :: real
  timeOffsetRef :: real
  program_uniforms :: uniforms

text \<open>
  The default values of the properties, as the parameter list of the component gives
  them.  The default of \<^verbatim>\<open>dpr\<close> is computed from the window's device pixel ratio,
  and \<open>(0, 1, 136 / 255)\<close> is the tint \<^verbatim>\<open>#00ff88\<close>.
\<close>

definition default_props :: "real \<Rightarrow> props" where
  "default_props devicePixelRatio =
     \<lparr>scale = 1, gridMul = (2, 1), digitSize = 1.5, timeScale = 0.3, pause = False,
      scanlineIntensity = 0.3, glitchAmount = 1, flickerAmount = 1, noiseAmp = 1,
      chromaticAberration = 0, ditherValue = 0, curvature = 0.2, tintVec = (0, 1, 136 / 255),
      mouseReact = True, mouseStrength = 0.2,
      dpr = min (if devicePixelRatio = 0 then 1 else devicePixelRatio) 2,
      pageLoadAnimation = True, brightness = 1\<rparr>"

text \<open>
  The uniform table that the effect gives to a new program; \<open>canvas\<close> is the size of the
  canvas at that moment and \<open>smoothMouse\<close> the smoothed pointer position.
\<close>

definition initial_uniforms :: "props \<Rightarrow> vec2 \<Rightarrow> vec2 \<Rightarrow> uniforms" where
  "initial_uniforms pr canvas smoothMouse =
     \<lparr>iTime = 0,
      iResolution = (fst canvas, snd canvas, fst canvas / snd canvas),
      uScale = scale pr,
      uGridMul = gridMul pr,
      uDigitSize = digitSize pr,
      uScanlineIntensity = scanlineIntensity pr,
      uGlitchAmount = glitchAmount pr,
      uFlickerAmount = flickerAmount pr,
      uNoiseAmp = noiseAmp pr,
      uChromaticAberration = chromaticAberration pr,
      uDither = ditherValue pr,
      uCurvature = curvature pr,
      uTint = tintVec pr,
      uMouse = smoothMouse,
      uMouseStrength = mouseStrength pr,
      uUseMouse = (if mouseReact pr then 1 else 0),
      uPageLoadProgress = (if pageLoadAnimation pr then 0 else 1),
      uUsePageLoadAnimation = (if pageLoadAnimation pr then 1 else 0),
      uBrightness = brightness pr,
      uLogoHeight = 0.15,
      uHasLogo = 1\<rparr>"

text \<open>
  The state after the first render and the first run of the effect; \<open>timeOffset\<close> is the
  random number drawn at the first render (\<^verbatim>\<open>Math.random() * 100\<close>), and the ref holds a
  hundred times it.
\<close>

definition mount :: "props \<Rightarrow> vec2 \<Rightarrow> real \<Rightarrow> frame_state" where
  "mount pr canvas timeOffset =
     \<lparr>mouseRef = (0.5, 0.5), smoothMouseRef = (0.5, 0.5), frozenTimeRef = 0,
      loadAnimationStartRef = 0, timeOffsetRef = timeOffset * 100,
      program_uniforms = initial_uniforms pr canvas (0.5, 0.5)\<rparr>"

text \<open>A re-run of the effect keeps the refs and creates a new program.\<close>

definition create_program :: "props \<Rightarrow> vec2 \<Rightarrow> frame_state \<Rightarrow> frame_state" where
  "create_program pr canvas s =
     s\<lparr>program_uniforms := initial_uniforms pr canvas (smoothMouseRef s)\<rparr>"

text \<open>
  \<^verbatim>\<open>update\<close>: the callback of one animation frame at time \<open>t\<close> (milliseconds), up to the
  draw call, which reads the uniform table this function leaves.
\<close>

definition update :: "props \<Rightarrow> real \<Rightarrow> frame_state \<Rightarrow> frame_state" where
  "update pr t s =
     (let s1 = (if pageLoadAnimation pr \<and> loadAnimationStartRef s = 0
                then s\<lparr>loadAnimationStartRef := t\<rparr> else s);
          s2 = (if \<not> pause pr
                then (let elapsed = (t * 0.001 + timeOffsetRef s1) * timeScale pr
                      in s1\<lparr>program_uniforms := (program_uniforms s1)\<lparr>iTime := elapsed\<rparr>,
                            frozenTimeRef := elapsed\<rparr>)
                else s1\<lparr>program_uniforms := (program_uniforms s1)\<lparr>iTime := frozenTimeRef s1\<rparr>\<rparr>);
          s3 = (if pageLoadAnimation pr \<and> loadAnimationStartRef s2 > 0
                then (let animationDuration = 2000;
                          animationElapsed = t - loadAnimationStartRef s2;
                          progress = min (animationElapsed / animationDuration) 1
                      in s2\<lparr>program_uniforms :=
                              (program_uniforms s2)\<lparr>uPageLoadProgress := progress\<rparr>\<rparr>)
                else s2);
          s4 = (if mouseReact pr
                then (let dampingFactor = 0.08;
                          smoothMouse = smoothMouseRef s3;
                          mouse = mouseRef s3;
                          x = fst smoothMouse + (fst mouse - fst smoothMouse) * dampingFactor;
                          y = snd smoothMouse + (snd mouse - snd smoothMouse) * dampingFactor
                      in s3\<lparr>smoothMouseRef := (x, y),
                            program_uniforms := (program_uniforms s3)\<lparr>uMouse := (x, y)\<rparr>\<rparr>)
                else s3)
      in s4)"

text \<open>
  A frame is the time of the callback together with the properties of the render whose
  effect requested it: a change of \<^verbatim>\<open>pause\<close> or \<^verbatim>\<open>timeScale\<close> re-runs the effect, and
  the frames after it see the new values while the refs persist.
\<close>

fun run_frames :: "(props \<times> real) list \<Rightarrow> frame_state \<Rightarrow> frame_state" where
  "run_frames [] s = s"
| "run_frames ((pr, t) # fs) s = run_frames fs (update pr t s)"

text \<open>The states that the draw calls of a sequence of frames see, in order.\<close>

fun update_trace :: "props \<Rightarrow> real list \<Rightarrow> frame_state \<Rightarrow> frame_state list" where
  "update_trace pr [] s = []"
| "update_trace pr (t # ts) s = (let s' = update pr t s in s' # update_trace pr ts s')"

text \<open>What a frame reports to the shader.\<close>

definition reported_time :: "frame_state \<Rightarrow> real" where
  "reported_time s = iTime (program_uniforms s)"

definition reported_progress :: "frame_state \<Rightarrow> real" where
  "reported_progress s = uPageLoadProgress (program_uniforms s)"

subsection \<open>The clock as the specification words it\<close>

text \<open>
  The specification describes the clock as an accumulator:
  \<^verbatim>\<open>advance(wallDeltaSeconds, timeScale, paused)\<close> adds the scaled delta to the elapsed
  time when not paused and remembers the result as the frozen snapshot; when paused it
  returns the snapshot.  This definition follows those words and is only compared with
  \<open>update\<close>.
\<close>

record spec_clock =
  spec_elapsed :: real
  spec_frozen :: real

definition spec_advance :: "real \<Rightarrow> real \<Rightarrow> bool \<Rightarrow> spec_clock \<Rightarrow> spec_clock" where
  "spec_advance wallDeltaSeconds ts paused c =
     (if \<not> paused
      then (let e = spec_elapsed c + max 0 wallDeltaSeconds * ts
            in \<lparr>spec_elapsed = e, spec_frozen = e\<rparr>)
      else c)"

definition spec_reported :: "bool \<Rightarrow> spec_clock \<Rightarrow> real" where
  "spec_reported paused c = (if paused then spec_frozen c else spec_elapsed c)"

text \<open>
  The accumulator driven by the frames that drive \<open>update\<close>: the delta of a frame is the
  time since the previous wall-clock sample, in seconds.
\<close>

fun spec_frames :: "(props \<times> real) list \<Rightarrow> real \<Rightarrow> spec_clock \<Rightarrow> spec_clock" where
  "spec_frames [] lastSample c = c"
| "spec_frames ((pr, t) # fs) lastSample c =
     spec_frames fs t (spec_advance ((t - lastSample) * 0.001) (timeScale pr) (pause pr) c)"

subsection \<open>A session with a pause\<close>

text \<open>
  The default properties with \<^verbatim>\<open>pause\<close> set, and a terminal mounted with the defaults
  on an 800 by 600 canvas, with time offset \<open>0\<close>, whose first frame ran at 1000 ms.
\<close>

definition paused_props :: props where
  "paused_props = (default_props 1)\<lparr>pause := True\<rparr>"

definition running_since_1000 :: frame_state where
  "running_since_1000 = update (default_props 1) 1000 (mount (default_props 1) (800, 600) 0)"

section \<open>The rasterizer of the logo strip\<close>

text \<open>
  The bitmap that a tick draws and uploads: the size of the offscreen canvas and the
  picture on it.  The picture is whatever the serialised markup decodes to; its type is
  left open.
\<close>

record 'img raster_frame =
  frame_width :: real
  frame_height :: real
  picture :: 'img

text \<open>
  What a rasterization tick finds in the host: the bounding box of the logo container,
  whether \<^verbatim>\<open>getContext('2d')\<close> returns a context, and the picture that the serialised
  container decodes to.
\<close>

record 'img tick_env =
  rect_width :: real
  rect_height :: real
  context2d :: bool
  snapshot :: 'img

text \<open>
  The part of the rendering surface that the rasterizer touches: whether
  \<^verbatim>\<open>createTexture\<close> returned a texture, the bitmap last uploaded to it (\<open>None\<close> before the
  first upload), and the images whose \<^verbatim>\<open>onload\<close> handler has been installed and has not
  run yet.
\<close>

record 'img surface =
  has_logoTexture :: bool
  uploaded :: "'img raster_frame option"
  loading :: "'img raster_frame list"

text \<open>
  \<^verbatim>\<open>updateLogoTexture\<close>: one tick.  The function contains no \<^verbatim>\<open>throw\<close>; without a
  drawing context its body is over after the test of \<^verbatim>\<open>ctx\<close>.  With a context it
  installs the \<^verbatim>\<open>onload\<close> handler of a new image, which is what uploads.
\<close>

definition updateLogoTexture :: "real \<Rightarrow> 'img tick_env \<Rightarrow> 'img surface \<Rightarrow> 'img surface" where
  "updateLogoTexture device_ratio env s =
     (if \<not> has_logoTexture s then s
      else (let canvas_width = rect_width env * device_ratio;
                canvas_height = rect_height env * device_ratio
            in if context2d env
               then s\<lparr>loading := loading s @
                        [\<lparr>frame_width = canvas_width, frame_height = canvas_height,
                          picture = snapshot env\<rparr>]\<rparr>
               else s))"

text \<open>
  The \<^verbatim>\<open>onload\<close> handler of the \<open>i\<close>-th image still loading: it draws the image on its
  canvas and uploads the canvas with \<^verbatim>\<open>texImage2D\<close>.
\<close>

definition img_onload :: "nat \<Rightarrow> 'img surface \<Rightarrow> 'img surface" where
  "img_onload i s =
     (if i < length (loading s)
      then s\<lparr>uploaded := Some (loading s ! i),
             loading := take i (loading s) @ drop (Suc i) (loading s)\<rparr>
      else s)"

text \<open>A run of ticks, each with what it finds in the host.\<close>

fun run_ticks :: "real \<Rightarrow> 'img tick_env list \<Rightarrow> 'img surface \<Rightarrow> 'img surface" where
  "run_ticks device_ratio [] s = s"
| "run_ticks device_ratio (env # envs) s =
     run_ticks device_ratio envs (updateLogoTexture device_ratio env s)"

text \<open>The bitmap that a draw call samples through \<^verbatim>\<open>uLogoTexture\<close>.\<close>

definition sampled_texture :: "'img surface \<Rightarrow> 'img raster_frame option" where
  "sampled_texture s = uploaded s"

subsection \<open>A surface with a bitmap on it\<close>

text \<open>
  A logo container of 800 by 52 pixels at device pixel ratio \<open>2\<close>; pictures are numbered.
  The surface holds picture \<open>1\<close>; one host state has no drawing context to give, the
  other has one and would decode picture \<open>3\<close>.
\<close>

definition stale_surface :: "nat surface" where
  "stale_surface =
     \<lparr>has_logoTexture = True,
      uploaded = Some \<lparr>frame_width = 1600, frame_height = 104, picture = 1\<rparr>,
      loading = []\<rparr>"

definition env_without_context :: "nat tick_env" where
  "env_without_context = \<lparr>rect_width = 800, rect_height = 52, context2d = False, snapshot = 2\<rparr>"

definition env_with_context :: "nat tick_env" where
  "env_with_context = \<lparr>rect_width = 800, rect_height = 52, context2d = True, snapshot = 3\<rparr>"

section \<open>The fragment shader\<close>

subsection \<open>Built-in functions of GLSL\<close>

definition fract :: "real \<Rightarrow> real" where
  "fract x = x - of_int \<lfloor>x\<rfloor>"

definition glsl_mod :: "real \<Rightarrow> real \<Rightarrow> real" where
  "glsl_mod x y = x - y * of_int \<lfloor>x / y\<rfloor>"

definition step :: "real \<Rightarrow> real \<Rightarrow> real" where
  "step edge x = (if x < edge then 0 else 1)"

definition clamp :: "real \<Rightarrow> real \<Rightarrow> real \<Rightarrow> real" where
  "clamp x lo hi = min (max x lo) hi"

definition smoothstep :: "real \<Rightarrow> real \<Rightarrow> real \<Rightarrow> real" where
  "smoothstep edge0 edge1 x =
     (let t = clamp ((x - edge0) / (edge1 - edge0)) 0 1 in t * t * (3 - 2 * t))"

definition mix :: "real \<Rightarrow> real \<Rightarrow> real \<Rightarrow> real" where
  "mix x y a = x * (1 - a) + y * a"

definition dot2 :: "vec2 \<Rightarrow> vec2 \<Rightarrow> real" where
  "dot2 a b = fst a * fst b + snd a * snd b"

definition distance2 :: "vec2 \<Rightarrow> vec2 \<Rightarrow> real" where
  "distance2 a b = sqrt (dot2 (fst a - fst b, snd a - snd b) (fst a - fst b, snd a - snd b))"

text \<open>A \<^verbatim>\<open>mat2\<close> is its two columns; this is the product of a matrix and a vector.\<close>

definition mat_vec :: "mat2 \<Rightarrow> vec2 \<Rightarrow> vec2" where
  "mat_vec m v =
     (fst (fst m) * fst v + fst (snd m) * snd v, snd (fst m) * fst v + snd (snd m) * snd v)"

subsection \<open>The functions of the shader\<close>

text \<open>The global \<^verbatim>\<open>time\<close>, which \<^verbatim>\<open>main\<close> sets before anything else runs.\<close>

definition time :: "uniforms \<Rightarrow> real" where
  "time u = iTime u * 0.333333"

definition hash21 :: "vec2 \<Rightarrow> real" where
  "hash21 p0 =
     (let p = (fract (fst p0 * 234.56), fract (snd p0 * 234.56));
          d = dot2 p (fst p + 34.56, snd p + 34.56);
          p = (fst p + d, snd p + d)
      in fract (fst p * snd p))"

definition noise :: "uniforms \<Rightarrow> vec2 \<Rightarrow> real" where
  "noise u p = sin (fst p * 10) * sin (snd p * (3 + sin (time u * 0.090909))) + 0.2"

definition rotate_mat :: "real \<Rightarrow> mat2" where
  "rotate_mat angle = (let c = cos angle; s = sin angle in ((c, - s), (s, c)))"

definition fbm :: "uniforms \<Rightarrow> vec2 \<Rightarrow> real" where
  "fbm u p0 =
     (let p = (fst p0 * 1.1, snd p0 * 1.1);
          f = 0;
          amp = 0.5 * uNoiseAmp u;
          modify0 = rotate_mat (time u * 0.02);
          f = f + amp * noise u p;
          p = (fst (mat_vec modify0 p) * 2, snd (mat_vec modify0 p) * 2);
          amp = amp * 0.454545;
          modify1 = rotate_mat (time u * 0.02);
          f = f + amp * noise u p;
          p = (fst (mat_vec modify1 p) * 2, snd (mat_vec modify1 p) * 2);
          amp = amp * 0.454545;
          f = f + amp * noise u p
      in f)"

text \<open>\<^verbatim>\<open>pattern\<close> returns its value and, through its two \<^verbatim>\<open>out\<close> parameters, \<open>q\<close> and \<open>r\<close>.\<close>

definition pattern :: "uniforms \<Rightarrow> vec2 \<Rightarrow> real \<times> vec2 \<times> vec2" where
  "pattern u p =
     (let offset1 = (1, 1);
          offset0 = (0, 0);
          rot01 = rotate_mat (0.1 * time u);
          rot1 = rotate_mat 0.1;
          q = (fbm u (fst p + fst offset1, snd p + snd offset1),
               fbm u (fst (mat_vec rot01 p) + fst offset1, snd (mat_vec rot01 p) + snd offset1));
          r = (fbm u (fst (mat_vec rot1 q) + fst offset0, snd (mat_vec rot1 q) + snd offset0),
               fbm u (fst q + fst offset0, snd q + snd offset0))
      in (fbm u (fst p + fst r, snd p + snd r), q, r))"

text \<open>
  The block of \<^verbatim>\<open>digit\<close> guarded by \<^verbatim>\<open>uUseMouse > 0.5\<close>: from the intensity before the
  block to the intensity after it, for the cell \<open>s\<close>.
\<close>

definition mouse_block :: "uniforms \<Rightarrow> vec2 \<Rightarrow> real \<Rightarrow> real" where
  "mouse_block u s intensity =
     (if uUseMouse u > 0.5
      then (let mouseWorld = (fst (uMouse u) * uScale u, snd (uMouse u) * uScale u);
                distToMouse = distance2 s mouseWorld;
                mouseInfluence = exp (- distToMouse * 8) * uMouseStrength u * 10;
                intensity = intensity + mouseInfluence;
                ripple = sin (distToMouse * 20 - iTime u * 5) * 0.1 * mouseInfluence
            in intensity + ripple)
      else intensity)"

text \<open>The block of \<^verbatim>\<open>digit\<close> guarded by \<^verbatim>\<open>uUsePageLoadAnimation > 0.5\<close>.\<close>

definition page_load_block :: "uniforms \<Rightarrow> vec2 \<Rightarrow> real \<Rightarrow> real" where
  "page_load_block u s intensity =
     (if uUsePageLoadAnimation u > 0.5
      then (let cellRandom = fract (sin (dot2 s (12.9898, 78.233)) * 43758.5453);
                cellDelay = cellRandom * 0.8;
                cellProgress = clamp ((uPageLoadProgress u - cellDelay) / 0.2) 0 1;
                fadeAlpha = smoothstep 0 1 cellProgress
            in intensity * fadeAlpha)
      else intensity)"

definition digit :: "uniforms \<Rightarrow> vec2 \<Rightarrow> real" where
  "digit u p0 =
     (let grid = (fst (uGridMul u) * 15, snd (uGridMul u) * 15);
          s = (of_int \<lfloor>fst p0 * fst grid\<rfloor> / fst grid, of_int \<lfloor>snd p0 * snd grid\<rfloor> / snd grid);
          p = (fst p0 * fst grid, snd p0 * snd grid);
          intensity = fst (pattern u (fst s * 0.1, snd s * 0.1)) * 1.3 - 0.03;
          intensity = mouse_block u s intensity;
          intensity = page_load_block u s intensity;
          p = (fract (fst p), fract (snd p));
          p = (fst p * uDigitSize u, snd p * uDigitSize u);
          px5 = fst p * 5;
          py5 = (1 - snd p) * 5;
          x = fract px5;
          y = fract py5;
          i = of_int \<lfloor>py5\<rfloor> - 2;
          j = of_int \<lfloor>px5\<rfloor> - 2;
          n = i * i + j * j;
          f = n * 0.0625;
          isOn = step 0.1 (intensity - f);
          brightness = isOn * (0.2 + y * 0.8) * (0.75 + x * 0.25)
      in step 0 (fst p) * step (fst p) 1 * step 0 (snd p) * step (snd p) 1 * brightness)"

definition onOff :: "uniforms \<Rightarrow> real \<Rightarrow> real \<Rightarrow> real \<Rightarrow> real" where
  "onOff u a b c = step c (sin (iTime u + a * cos (iTime u * b))) * uFlickerAmount u"

definition displace :: "uniforms \<Rightarrow> vec2 \<Rightarrow> real" where
  "displace u look =
     (let y = snd look - glsl_mod (iTime u * 0.25) 1;
          window = 1 / (1 + 50 * y * y)
      in sin (snd look * 20 + iTime u) * 0.0125 * onOff u 4 2 0.8 * (1 + cos (iTime u * 60)) * window)"

text \<open>
  The first statements of \<^verbatim>\<open>getColor\<close> that change \<open>p\<close>: the displacement is computed
  once, added, and, unless \<^verbatim>\<open>uGlitchAmount\<close> is \<open>1\<close>, the extra term is added too.  The
  result is the point at which \<^verbatim>\<open>getColor\<close> then evaluates \<^verbatim>\<open>digit\<close>.
\<close>

definition glitch :: "uniforms \<Rightarrow> vec2 \<Rightarrow> vec2" where
  "glitch u p0 =
     (let displacement = displace u p0;
          p = (fst p0 + displacement, snd p0)
      in if uGlitchAmount u \<noteq> 1
         then (let extra = displacement * (uGlitchAmount u - 1) in (fst p + extra, snd p))
         else p)"

definition getColor :: "uniforms \<Rightarrow> vec2 \<Rightarrow> vec3" where
  "getColor u p0 =
     (let bar = step (glsl_mod (snd p0 + time u * 20) 1) 0.2 * 0.4 + 1;
          bar = bar * uScanlineIntensity u;
          p = glitch u p0;
          middle = digit u p;
          off = 0.002;
          sum = digit u (fst p - off, snd p - off) + digit u (fst p, snd p - off)
              + digit u (fst p + off, snd p - off)
              + digit u (fst p - off, snd p) + digit u (fst p, snd p) + digit u (fst p + off, snd p)
              + digit u (fst p - off, snd p + off) + digit u (fst p, snd p + off)
              + digit u (fst p + off, snd p + off);
          c = 0.9 * middle + sum * 0.1 * 1 * bar
      in (c, c, c))"

definition barrel :: "uniforms \<Rightarrow> vec2 \<Rightarrow> vec2" where
  "barrel u uv =
     (let c = (fst uv * 2 - 1, snd uv * 2 - 1);
          r2 = dot2 c c;
          c = (fst c * (1 + uCurvature u * r2), snd c * (1 + uCurvature u * r2))
      in (fst c * 0.5 + 0.5, snd c * 0.5 + 0.5))"

text \<open>
  In \<^verbatim>\<open>main\<close>, the coordinate \<open>uv\<close> after the test of \<^verbatim>\<open>uCurvature\<close>, and the
  coordinate \<open>logoUv\<close> of the logo band.  Every sample that \<^verbatim>\<open>main\<close> takes is at a
  point computed from one of the two.
\<close>

definition main_uv :: "uniforms \<Rightarrow> vec2 \<Rightarrow> vec2" where
  "main_uv u vUv = (if uCurvature u \<noteq> 0 then barrel u vUv else vUv)"

definition main_logoUv :: "uniforms \<Rightarrow> vec2 \<Rightarrow> vec2" where
  "main_logoUv u vUv = (if uCurvature u \<noteq> 0 then barrel u (fst vUv, snd vUv) else main_uv u vUv)"

text \<open>
  \<^verbatim>\<open>main\<close>: the colour of the fragment at \<open>vUv\<close>, whose window coordinate is
  \<open>fragCoord\<close>; \<open>tex\<close> is the lookup in the logo texture.
\<close>

definition main :: "uniforms \<Rightarrow> (vec2 \<Rightarrow> vec4) \<Rightarrow> vec2 \<Rightarrow> vec2 \<Rightarrow> vec4" where
  "main u tex vUv fragCoord =
     (let uv = main_uv u vUv;
          p = (fst uv * uScale u, snd uv * uScale u);
          col = getColor u p;
          col = (if uHasLogo u > 0.5 \<and> snd uv > 1 - uLogoHeight u
                 then (let logoUv = main_logoUv u vUv;
                           logoY = (snd logoUv - (1 - uLogoHeight u)) / uLogoHeight u;
                           logoTexCoord = (fst logoUv, 1 - logoY);
                           displacement = displace u p * 0.5;
                           logoTexCoord = (fst logoTexCoord + displacement, snd logoTexCoord);
                           logoColor = tex logoTexCoord;
                           a = snd (snd (snd logoColor))
                       in (mix (fst col) (fst logoColor) a,
                           mix (fst (snd col)) (fst (snd logoColor)) a,
                           mix (snd (snd col)) (fst (snd (snd logoColor))) a))
                 else col);
          col = (if uChromaticAberration u \<noteq> 0
                 then (let ca = (uChromaticAberration u / fst (iResolution u),
                                 uChromaticAberration u / fst (snd (iResolution u)))
                       in (fst (getColor u (fst p + fst ca, snd p + snd ca)),
                           fst (snd col),
                           snd (snd (getColor u (fst p - fst ca, snd p - snd ca)))))
                 else col);
          col = (fst col * fst (uTint u), fst (snd col) * fst (snd (uTint u)),
                 snd (snd col) * snd (snd (uTint u)));
          col = (fst col * uBrightness u, fst (snd col) * uBrightness u,
                 snd (snd col) * uBrightness u);
          col = (if uDither u > 0
                 then (let rnd = hash21 fragCoord;
                           d = (rnd - 0.5) * (uDither u * 0.003922)
                       in (fst col + d, fst (snd col) + d, snd (snd col) + d))
                 else col)
      in (fst col, fst (snd col), snd (snd col), 1))"

section \<open>Properties of the ticker\<close>

subsection \<open>The remainder and the wrap\<close>

lemma js_rem_nonneg_range:
  assumes "0 < y" "0 \<le> x"
  shows "0 \<le> js_rem x y \<and> js_rem x y < y"
proof -
  have q: "0 \<le> x / y" using assms by simp
  let ?k = "\<lfloor>x / y\<rfloor>"
  have "of_int ?k * y \<le> (x / y) * y"
    by (rule mult_right_mono) (use assms in simp_all)
  then have lo: "y * of_int ?k \<le> x" using assms(1) by (simp add: mult.commute)
  have "x / y < of_int ?k + 1" by linarith
  then have "(x / y) * y < (of_int ?k + 1) * y"
    using assms(1) by (rule mult_strict_right_mono)
  then have hi: "x < y * (of_int ?k + 1)" using assms(1) by (simp add: mult.commute)
  show ?thesis using q lo hi by (simp add: js_rem_def trunc_quot_def algebra_simps)
qed

lemma js_rem_neg_range:
  assumes "0 < y" "x < 0"
  shows "- y < js_rem x y \<and> js_rem x y \<le> 0"
proof -
  have q: "\<not> 0 \<le> x / y" using assms by (simp add: divide_less_0_iff not_le)
  let ?k = "\<lceil>x / y\<rceil>"
  have "(x / y) * y \<le> of_int ?k * y"
    by (rule mult_right_mono) (use assms in simp_all)
  then have lo: "x \<le> y * of_int ?k" using assms(1) by (simp add: mult.commute)
  have "of_int ?k < x / y + 1" by linarith
  then have "of_int ?k * y < (x / y + 1) * y"
    using assms(1) by (rule mult_strict_right_mono)
  then have hi: "y * of_int ?k < x + y" using assms(1) by (simp add: mult.commute algebra_simps)
  show ?thesis using q lo hi by (simp add: js_rem_def trunc_quot_def algebra_simps)
qed

lemma wrap_offset_range:
  assumes "0 < w"
  shows "0 \<le> wrap_offset x w \<and> wrap_offset x w < of_int w"
proof -
  have w: "0 < (of_int w :: real)" using assms by simp
  have "- of_int w < js_rem x (of_int w)"
    using js_rem_nonneg_range [OF w, of x] js_rem_neg_range [OF w, of x] w
    by (cases "0 \<le> x") auto
  then have "0 \<le> js_rem x (of_int w) + of_int w" by simp
  from js_rem_nonneg_range [OF w this] show ?thesis by (simp add: wrap_offset_def)
qed

lemma animate_offset:
  "0 < w \<Longrightarrow> offset (animate target w t s) =
     wrap_offset (offset s + velocity (animate target w t s) * frame_delta (lastTimestamp s) t) w"
  by (simp add: animate_def Let_def)

lemma animate_offset_range:
  "0 < w \<Longrightarrow> 0 \<le> offset (animate target w t s) \<and> offset (animate target w t s) < of_int w"
  by (simp add: animate_def Let_def wrap_offset_range)

lemma animate_trace_range:
  "0 < w \<Longrightarrow> \<forall>s' \<in> set (animate_trace target w ts s). 0 \<le> offset s' \<and> offset s' < of_int w"
  by (induction ts arbitrary: s) (simp_all add: Let_def animate_offset_range)

text \<open>
  Claim C2.  For a positive sequence width \<open>w\<close>, any target velocity, any state of the
  ticker (so any velocity and any stored offset) and any sequence of frame timestamps, the
  offset after every frame is at least \<open>0\<close> and less than \<open>w\<close>; the offset on mount is
  in the same range; and the offset of a frame is the advanced offset \<open>x\<close> wrapped as
  \<^verbatim>\<open>((x % w) + w) % w\<close>.
\<close>

theorem wrap_invariant:
  assumes "0 < w"
  shows "(\<forall>s' \<in> set (animate_trace target w ts s). 0 \<le> offset s' \<and> offset s' < of_int w) \<and>
         0 \<le> offset (ticker_effect w s) \<and> offset (ticker_effect w s) < of_int w \<and>
         offset (animate target w t s) =
           js_rem (js_rem (offset s + velocity (animate target w t s)
                             * frame_delta (lastTimestamp s) t) (of_int w) + of_int w) (of_int w)"
proof -
  have "\<forall>s' \<in> set (animate_trace target w ts s). 0 \<le> offset s' \<and> offset s' < of_int w"
    using assms by (rule animate_trace_range)
  moreover have "0 \<le> offset (ticker_effect w s) \<and> offset (ticker_effect w s) < of_int w"
    using assms wrap_offset_range [of w "offset s"] by (simp add: ticker_effect_def)
  moreover have "offset (animate target w t s) =
           js_rem (js_rem (offset s + velocity (animate target w t s)
                             * frame_delta (lastTimestamp s) t) (of_int w) + of_int w) (of_int w)"
    using assms by (simp add: animate_offset wrap_offset_def)
  ultimately show ?thesis by blast
qed

theorem wrap_invariant_witness:
  "(0 :: int) < 200 \<and>
   0 \<le> offset (animate (- 120) 200 16 (animate (- 120) 200 0 initial_ticker)) \<and>
   offset (animate (- 120) 200 16 (animate (- 120) 200 0 initial_ticker)) < 200"
  using wrap_invariant [of 200 "- 120" "[0, 16]" initial_ticker] by (simp add: Let_def)

subsection \<open>The easing of the velocity\<close>

lemma ease_velocity_gap:
  "ease_velocity target d v - target = (v - target) * exp (- d / SMOOTH_TAU)"
  by (simp add: ease_velocity_def Let_def algebra_simps)

lemma animate_velocity:
  "velocity (animate target w t s) =
     ease_velocity target (frame_delta (lastTimestamp s) t) (velocity s)"
  by (simp add: animate_def Let_def)

lemma animate_lastTimestamp: "lastTimestamp (animate target w t s) = Some t"
  by (simp add: animate_def Let_def)

text \<open>Over any frames, the distance to the target decays with the time they cover.\<close>

lemma animate_all_gap:
  "velocity (animate_all target w ts s) - target =
     (velocity s - target) * exp (- total_delta (lastTimestamp s) ts / SMOOTH_TAU)"
proof (induction ts arbitrary: s)
  case Nil
  then show ?case by simp
next
  case (Cons t ts)
  have "velocity (animate_all target w (t # ts) s) - target =
        (velocity (animate target w t s) - target) * exp (- total_delta (Some t) ts / SMOOTH_TAU)"
    by (simp add: Cons.IH animate_lastTimestamp)
  also have "velocity (animate target w t s) - target =
        (velocity s - target) * exp (- frame_delta (lastTimestamp s) t / SMOOTH_TAU)"
    by (simp only: animate_velocity ease_velocity_gap)
  finally have "velocity (animate_all target w (t # ts) s) - target =
        (velocity s - target) * (exp (- frame_delta (lastTimestamp s) t / SMOOTH_TAU)
           * exp (- total_delta (Some t) ts / SMOOTH_TAU))"
    by (simp only: mult.assoc)
  also have "exp (- frame_delta (lastTimestamp s) t / SMOOTH_TAU)
           * exp (- total_delta (Some t) ts / SMOOTH_TAU)
         = exp (- total_delta (lastTimestamp s) (t # ts) / SMOOTH_TAU)"
    by (simp add: exp_add [symmetric] add_divide_distrib diff_divide_distrib)
  finally show ?case .
qed

lemma exp_five_ge_100: "100 \<le> exp (5 :: real)"
proof -
  have "(1 + 5/8 + (5/8)\<^sup>2 / 2 :: real) \<le> exp (5/8)"
    by (rule exp_lower_Taylor_quadratic) simp
  then have "(1 + 5/8 + (5/8)\<^sup>2 / 2 :: real) ^ 8 \<le> exp (5/8) ^ 8"
    by (rule power_mono) simp
  moreover have "exp (5/8 :: real) ^ 8 = exp 5"
    by (simp add: exp_of_nat_mult [symmetric])
  moreover have "(100 :: real) \<le> (1 + 5/8 + (5/8)\<^sup>2 / 2) ^ 8"
    by (simp add: power2_eq_square field_simps)
  ultimately show ?thesis by linarith
qed

lemma exp_five_le_243: "exp (5 :: real) \<le> 243"
proof -
  have "exp (5 :: real) = exp 1 ^ 5"
    by (simp add: exp_of_nat_mult [symmetric])
  also have "\<dots> \<le> 3 ^ 5"
    by (rule power_mono) (simp_all add: exp_le)
  finally show ?thesis by simp
qed

lemma decay_bound:
  assumes "1.25 \<le> d"
  shows "exp (- d / SMOOTH_TAU) \<le> (0.01 :: real)"
proof -
  have "5 \<le> d / SMOOTH_TAU" using assms by (simp add: SMOOTH_TAU_def)
  then have "exp (- d / SMOOTH_TAU) \<le> exp (- 5)" by simp
  also have "exp (- 5 :: real) = 1 / exp 5" by (simp add: exp_minus field_simps)
  also have "\<dots> \<le> 1 / 100"
    using exp_five_ge_100 by (intro divide_left_mono) simp_all
  finally show ?thesis by simp
qed

lemma gap_after_hold:
  assumes "1.25 \<le> total_delta (lastTimestamp s) ts"
  shows "\<bar>velocity (animate_all target w ts s) - target\<bar> \<le> 0.01 * \<bar>velocity s - target\<bar>"
proof -
  let ?e = "exp (- total_delta (lastTimestamp s) ts / SMOOTH_TAU)"
  have "\<bar>velocity (animate_all target w ts s) - target\<bar> = \<bar>velocity s - target\<bar> * ?e"
    by (simp only: animate_all_gap abs_mult) simp
  also have "\<dots> \<le> \<bar>velocity s - target\<bar> * 0.01"
    by (rule mult_left_mono) (use decay_bound [OF assms] in simp_all)
  finally show ?thesis by (simp add: mult.commute)
qed

text \<open>
  Claim C4, as the code has it.  A frame changes the velocity by
  \<open>(target - velocity) * (1 - exp (- dt / 0.25))\<close>.  When the target is held over frames
  whose deltas sum to at least 1.25 s, the distance of the velocity to the target is
  \<open>exp (- sum / 0.25)\<close> times the distance it started with, hence at most 1% of that
  distance; from the velocity \<open>0\<close> of a new ticker this is within 1% of the target.
\<close>

theorem velocity_converges:
  "velocity (animate target w t s) =
     velocity s + (target - velocity s) * (1 - exp (- frame_delta (lastTimestamp s) t / 0.25)) \<and>
   velocity (animate_all target w ts s) - target =
     (velocity s - target) * exp (- total_delta (lastTimestamp s) ts / 0.25) \<and>
   (1.25 \<le> total_delta (lastTimestamp s) ts \<longrightarrow>
      \<bar>velocity (animate_all target w ts s) - target\<bar> \<le> 0.01 * \<bar>velocity s - target\<bar>) \<and>
   (1.25 \<le> total_delta (lastTimestamp s) ts \<and> velocity s = 0 \<longrightarrow>
      \<bar>velocity (animate_all target w ts s) - target\<bar> \<le> 0.01 * \<bar>target\<bar>)"
proof -
  have step: "velocity (animate target w t s) =
     velocity s + (target - velocity s) * (1 - exp (- frame_delta (lastTimestamp s) t / 0.25))"
    by (simp add: animate_velocity ease_velocity_def SMOOTH_TAU_def)
  have gap: "velocity (animate_all target w ts s) - target =
     (velocity s - target) * exp (- total_delta (lastTimestamp s) ts / 0.25)"
    using animate_all_gap [of target w ts s] by (simp add: SMOOTH_TAU_def)
  have hold: "1.25 \<le> total_delta (lastTimestamp s) ts \<longrightarrow>
      \<bar>velocity (animate_all target w ts s) - target\<bar> \<le> 0.01 * \<bar>velocity s - target\<bar>"
    using gap_after_hold [of s ts target w] by blast
  have fresh: "1.25 \<le> total_delta (lastTimestamp s) ts \<and> velocity s = 0 \<longrightarrow>
      \<bar>velocity (animate_all target w ts s) - target\<bar> \<le> 0.01 * \<bar>target\<bar>"
    using gap_after_hold [of s ts target w] by auto
  from step gap hold fresh show ?thesis by blast
qed

theorem velocity_converges_witness:
  "(1.25 :: real) \<le> total_delta (Some 0) [500, 1000, 1500] \<and>
   \<bar>velocity (animate_all 120 200 [500, 1000, 1500]
       \<lparr>lastTimestamp = Some 0, offset = 0, velocity = 0\<rparr>) - 120\<bar> \<le> 0.01 * \<bar>120\<bar>"
proof -
  let ?s = "\<lparr>lastTimestamp = Some 0, offset = 0, velocity = (0 :: real)\<rparr>"
  have a: "(1.25 :: real) \<le> total_delta (Some 0) [500, 1000, 1500]"
    by (simp add: frame_delta_def)
  then have h: "1.25 \<le> total_delta (lastTimestamp ?s) [500, 1000, 1500] \<and> velocity ?s = 0"
    by simp
  have "1.25 \<le> total_delta (lastTimestamp ?s) [500, 1000, 1500] \<and> velocity ?s = 0 \<longrightarrow>
        \<bar>velocity (animate_all 120 200 [500, 1000, 1500] ?s) - 120\<bar> \<le> 0.01 * \<bar>120\<bar>"
    using velocity_converges [of 120 200 0 ?s "[500, 1000, 1500]"] by blast
  with h have b: "\<bar>velocity (animate_all 120 200 [500, 1000, 1500] ?s) - 120\<bar> \<le> 0.01 * \<bar>120\<bar>"
    by blast
  from a b show ?thesis by (rule conjI)
qed

theorem velocity_any_start_counterexample:
  "(1.25 :: real) \<le> total_delta (Some 0) [1250] \<and>
   \<not> \<bar>velocity (animate_all 1 200 [1250]
         \<lparr>lastTimestamp = Some 0, offset = 0, velocity = 1000\<rparr>) - 1\<bar> \<le> 0.01 * \<bar>1\<bar>"
proof -
  have d: "total_delta (Some 0) [1250] = 1.25" by (simp add: frame_delta_def)
  have "velocity (animate_all 1 200 [1250] \<lparr>lastTimestamp = Some 0, offset = 0, velocity = 1000\<rparr>) - 1
        = (1000 - 1) * exp (- 1.25 / SMOOTH_TAU)"
    using animate_all_gap [of 1 200 "[1250]" "\<lparr>lastTimestamp = Some 0, offset = 0, velocity = 1000\<rparr>"]
    by (simp add: frame_delta_def)
  also have "\<dots> = 999 / exp 5"
    by (simp add: SMOOTH_TAU_def exp_minus field_simps)
  finally have g: "velocity (animate_all 1 200 [1250]
      \<lparr>lastTimestamp = Some 0, offset = 0, velocity = 1000\<rparr>) - 1 = 999 / exp 5" .
  have "(999 :: real) / 243 \<le> 999 / exp 5"
    using exp_five_le_243 by (intro divide_left_mono) simp_all
  moreover have "(1 :: real) < 999 / 243" by simp
  ultimately have "(1 :: real) < 999 / exp 5" by linarith
  moreover have c: "0.01 * \<bar>1 :: real\<bar> = 1 / 100" by simp
  ultimately have "\<not> \<bar>999 / exp 5\<bar> \<le> 0.01 * \<bar>1 :: real\<bar>"
    unfolding c by linarith
  then have n: "\<not> \<bar>velocity (animate_all 1 200 [1250]
         \<lparr>lastTimestamp = Some 0, offset = 0, velocity = 1000\<rparr>) - 1\<bar> \<le> 0.01 * \<bar>1\<bar>"
    unfolding g .
  have a: "(1.25 :: real) \<le> total_delta (Some 0) [1250]" by (simp only: d)
  from a n show ?thesis by (rule conjI)
qed

subsection \<open>The number of copies\<close>

lemma copies_cover:
  assumes "0 < S" "0 \<le> C"
  shows "C + S \<le> of_int (\<lceil>C / S\<rceil> + 2) * S"
proof -
  have "(C / S) * S \<le> of_int \<lceil>C / S\<rceil> * S"
    by (rule mult_right_mono) (use assms in simp_all)
  then have "C \<le> of_int \<lceil>C / S\<rceil> * S" using assms by simp
  then show ?thesis using assms by (simp add: algebra_simps)
qed

text \<open>
  Claim C3.  For a measured sequence width \<open>S > 0\<close> and a container width \<open>C \<ge> 0\<close>,
  \<^verbatim>\<open>updateDimensions\<close> sets the copy count to \<open>k = max 2 (\<lceil>C / S\<rceil> + 2)\<close>, which is at
  least \<open>2\<close> and satisfies \<open>k * S \<ge> C + S\<close>; for \<open>S = 200\<close> and \<open>C = 500\<close> the count
  is \<open>5\<close>.
\<close>

theorem tile_count:
  "(0 < S \<and> 0 \<le> C \<longrightarrow>
      copyCount (updateDimensions (Some C) (Some S) d) = max 2 (\<lceil>C / S\<rceil> + 2) \<and>
      2 \<le> copyCount (updateDimensions (Some C) (Some S) d) \<and>
      C + S \<le> of_int (copyCount (updateDimensions (Some C) (Some S) d)) * S) \<and>
   copyCount (updateDimensions (Some 500) (Some 200) d) = 5"
proof -
  have c3: "\<lceil>500 / 200 :: real\<rceil> = 3" by (simp add: ceiling_eq_iff)
  have ex5: "copyCount (updateDimensions (Some 500) (Some 200) d) = 5"
    by (simp add: updateDimensions_def Let_def MIN_COPIES_def COPY_HEADROOM_def c3)
  have gen: "0 < S \<and> 0 \<le> C \<longrightarrow>
      copyCount (updateDimensions (Some C) (Some S) d) = max 2 (\<lceil>C / S\<rceil> + 2) \<and>
      2 \<le> copyCount (updateDimensions (Some C) (Some S) d) \<and>
      C + S \<le> of_int (copyCount (updateDimensions (Some C) (Some S) d)) * S"
  proof
    assume a: "0 < S \<and> 0 \<le> C"
    then have q: "0 \<le> C / S" by simp
    then have "\<lceil>0 :: real\<rceil> \<le> \<lceil>C / S\<rceil>" by (rule ceiling_mono)
    then have n: "0 \<le> \<lceil>C / S\<rceil>" by simp
    then have k: "max 2 (\<lceil>C / S\<rceil> + 2) = \<lceil>C / S\<rceil> + 2" by simp
    have c: "copyCount (updateDimensions (Some C) (Some S) d) = max 2 (\<lceil>C / S\<rceil> + 2)"
      using a by (simp add: updateDimensions_def Let_def MIN_COPIES_def COPY_HEADROOM_def)
    show "copyCount (updateDimensions (Some C) (Some S) d) = max 2 (\<lceil>C / S\<rceil> + 2) \<and>
      2 \<le> copyCount (updateDimensions (Some C) (Some S) d) \<and>
      C + S \<le> of_int (copyCount (updateDimensions (Some C) (Some S) d)) * S"
      using a n copies_cover [of S C] by (simp only: c k) simp
  qed
  from gen ex5 show ?thesis by (rule conjI)
qed

theorem tile_count_witness:
  "(0 :: real) < 120 \<and> (0 :: real) \<le> 1000 \<and>
   copyCount (updateDimensions (Some 1000) (Some 120) initial_dimensions) = 11 \<and>
   (1000 :: real) + 120 \<le> 11 * 120"
proof -
  have c: "\<lceil>1000 / 120 :: real\<rceil> = 9" by (simp add: ceiling_eq_iff)
  show ?thesis using tile_count [of 120 1000 initial_dimensions] by (simp add: c)
qed

subsection \<open>The target velocity\<close>

text \<open>
  Claim C6.  The target velocity is \<open>\<bar>speed\<bar>\<close> times \<open>1\<close> for the direction left and
  \<open>- 1\<close> for the direction right, times \<open>- 1\<close> when the speed is negative.  The two signs
  multiply: towards the left the target is the speed itself, towards the right its
  negation, so a negative speed towards the right gives a positive target.
\<close>

theorem target_velocity_signs:
  "targetVelocity speed dir =
     \<bar>speed\<bar> * (case dir of Left \<Rightarrow> 1 | Right \<Rightarrow> - 1) * (if speed < 0 then - 1 else 1) \<and>
   targetVelocity speed Left = speed \<and>
   targetVelocity speed Right = - speed \<and>
   (speed < 0 \<longrightarrow> 0 < targetVelocity speed Right)"
  by (cases dir) (simp_all add: targetVelocity_def Let_def)

theorem target_velocity_signs_witness:
  "(- 120 :: real) < 0 \<and> targetVelocity (- 120) Right = 120 \<and> 0 < targetVelocity (- 120) Right"
  using target_velocity_signs [of "- 120" Right] by simp


section \<open>Properties of the frame callback\<close>

subsection \<open>The clock\<close>

lemma update_paused:
  "pause pr \<Longrightarrow>
     reported_time (update pr t s) = frozenTimeRef s \<and>
     frozenTimeRef (update pr t s) = frozenTimeRef s"
  by (simp add: update_def reported_time_def Let_def)

lemma update_running:
  "\<not> pause pr \<Longrightarrow>
     reported_time (update pr t s) = (t * 0.001 + timeOffsetRef s) * timeScale pr \<and>
     frozenTimeRef (update pr t s) = (t * 0.001 + timeOffsetRef s) * timeScale pr"
  by (simp add: update_def reported_time_def Let_def)

lemma update_timeOffsetRef: "timeOffsetRef (update pr t s) = timeOffsetRef s"
  by (simp add: update_def Let_def)

lemma run_frames_timeOffsetRef: "timeOffsetRef (run_frames fs s) = timeOffsetRef s"
  by (induction fs arbitrary: s) (auto simp: update_timeOffsetRef)

lemma run_frames_snoc: "run_frames (fs @ [(pr, t)]) s = update pr t (run_frames fs s)"
  by (induction fs arbitrary: s) auto

lemma run_frames_paused_frozen:
  "\<forall>f \<in> set fs. pause (fst f) \<Longrightarrow> frozenTimeRef (run_frames fs s) = frozenTimeRef s"
  by (induction fs arbitrary: s) (auto simp: update_paused)

lemma run_frames_paused_reported:
  "\<forall>f \<in> set fs. pause (fst f) \<Longrightarrow> fs \<noteq> [] \<Longrightarrow>
     reported_time (run_frames fs s) = frozenTimeRef s"
proof (induction fs arbitrary: s rule: rev_induct)
  case Nil
  then show ?case by simp
next
  case (snoc f fs)
  obtain pr t where f: "f = (pr, t)" by (cases f)
  from snoc.prems have "pause pr" "\<forall>f \<in> set fs. pause (fst f)" by (auto simp: f)
  then show ?case
    by (simp add: f run_frames_snoc update_paused run_frames_paused_frozen)
qed

text \<open>
  Claim C1, as the code has it.  Take a frame at \<open>t\<close> that is not paused, then any
  frames that are all paused, then a frame at \<open>t'\<close> that is not paused and has the same
  time scale.  The unpaused frame reports \<open>(t / 1000 + timeOffset) * timeScale\<close>, a
  function of the timestamp alone.  Every paused frame reports the value of the frame at
  \<open>t\<close>, the frozen snapshot.  The frame at \<open>t'\<close> reports that value plus
  \<open>timeScale * (t' - t) / 1000\<close>: the whole time since the last unpaused frame, the
  paused time included.
\<close>

theorem clock_pause_resume:
  assumes "\<not> pause pr" and "\<forall>f \<in> set fs. pause (fst f)"
    and "\<not> pause pr'" and "timeScale pr' = timeScale pr"
  shows "reported_time (update pr t s) = (t * 0.001 + timeOffsetRef s) * timeScale pr \<and>
         (\<forall>n. 0 < n \<and> n \<le> length fs \<longrightarrow>
            reported_time (run_frames (take n fs) (update pr t s)) =
              reported_time (update pr t s)) \<and>
         reported_time (update pr' t' (run_frames fs (update pr t s))) =
           reported_time (update pr t s) + (t' - t) * 0.001 * timeScale pr"
proof -
  let ?s1 = "update pr t s"
  have r1: "reported_time ?s1 = (t * 0.001 + timeOffsetRef s) * timeScale pr"
    and f1: "frozenTimeRef ?s1 = (t * 0.001 + timeOffsetRef s) * timeScale pr"
    using update_running [OF assms(1), of t s] by simp_all
  have held: "\<forall>n. 0 < n \<and> n \<le> length fs \<longrightarrow>
      reported_time (run_frames (take n fs) ?s1) = reported_time ?s1"
  proof (intro allI impI)
    fix n
    assume n: "0 < n \<and> n \<le> length fs"
    then have ne: "take n fs \<noteq> []" by auto
    have "\<forall>f \<in> set (take n fs). pause (fst f)"
      using assms(2) by (auto dest: in_set_takeD)
    from run_frames_paused_reported [OF this ne, of ?s1]
    show "reported_time (run_frames (take n fs) ?s1) = reported_time ?s1"
      by (simp add: r1 f1)
  qed
  have "reported_time (update pr' t' (run_frames fs ?s1)) =
          (t' * 0.001 + timeOffsetRef (run_frames fs ?s1)) * timeScale pr'"
    using update_running [OF assms(3)] by simp
  also have "\<dots> = (t' * 0.001 + timeOffsetRef s) * timeScale pr"
    by (simp add: run_frames_timeOffsetRef update_timeOffsetRef assms(4))
  also have "\<dots> = reported_time ?s1 + (t' - t) * 0.001 * timeScale pr"
    by (simp add: r1 field_simps)
  finally have resumed: "reported_time (update pr' t' (run_frames fs ?s1)) =
      reported_time ?s1 + (t' - t) * 0.001 * timeScale pr" .
  from r1 held resumed show ?thesis by blast
qed

lemma default_not_paused: "\<not> pause (default_props r)"
  by (simp add: default_props_def)

lemma paused_props_paused: "pause paused_props"
  by (simp add: paused_props_def)

lemma default_timeScale: "timeScale (default_props r) = 0.3"
  by (simp add: default_props_def)

lemma mount_timeOffsetRef: "timeOffsetRef (mount pr canvas off) = off * 100"
  by (simp add: mount_def)

lemma running_since_1000_reported:
  "reported_time running_since_1000 = 0.3 \<and> timeOffsetRef running_since_1000 = 0"
  using update_running [OF default_not_paused, of 1 1000 "mount (default_props 1) (800, 600) 0"]
  by (simp add: running_since_1000_def update_timeOffsetRef mount_timeOffsetRef default_timeScale)

theorem clock_pause_resume_witness:
  "\<not> pause (default_props 1) \<and> pause (fst (paused_props, 2000 :: real)) \<and>
   pause (fst (paused_props, 3000 :: real)) \<and>
   reported_time (run_frames [(paused_props, 2000), (paused_props, 3000)] running_since_1000) = 0.3 \<and>
   reported_time (run_frames [(paused_props, 2000), (paused_props, 3000), (default_props 1, 4000)]
      running_since_1000) = 1.2"
proof -
  let ?s = "mount (default_props 1) (800, 600) 0"
  let ?fs = "[(paused_props, 2000 :: real), (paused_props, 3000)]"
  have h2: "\<forall>f \<in> set ?fs. pause (fst f)" by (simp add: paused_props_paused)
  note c = clock_pause_resume [OF default_not_paused [of 1] h2 default_not_paused [of 1] refl,
      where t = 1000 and s = ?s and t' = 4000]
  from c have held: "\<forall>n. 0 < n \<and> n \<le> length ?fs \<longrightarrow>
      reported_time (run_frames (take n ?fs) (update (default_props 1) 1000 ?s)) =
        reported_time (update (default_props 1) 1000 ?s)"
    by blast
  have two: "0 < (2 :: nat) \<and> 2 \<le> length ?fs" and all: "take 2 ?fs = ?fs"
    by simp_all
  from held [rule_format, OF two]
  have "reported_time (run_frames ?fs (update (default_props 1) 1000 ?s)) =
      reported_time (update (default_props 1) 1000 ?s)"
    unfolding all .
  then have a: "reported_time (run_frames ?fs running_since_1000) = 0.3"
    using running_since_1000_reported by (simp add: running_since_1000_def del: run_frames.simps)
  from c have "reported_time (update (default_props 1) 4000
        (run_frames ?fs (update (default_props 1) 1000 ?s))) =
      reported_time (update (default_props 1) 1000 ?s) + (4000 - 1000) * 0.001 * timeScale (default_props 1)"
    by blast
  then have "reported_time (update (default_props 1) 4000 (run_frames ?fs running_since_1000)) =
      0.3 + 3000 * 0.001 * 0.3"
    using running_since_1000_reported by (simp add: running_since_1000_def default_timeScale)
  then have b: "reported_time (run_frames (?fs @ [(default_props 1, 4000)]) running_since_1000) = 1.2"
    by (simp only: run_frames_snoc) simp
  from a b show ?thesis
    by (simp add: default_not_paused paused_props_paused del: run_frames.simps)
qed

lemma spec_session:
  "spec_reported False
     (spec_frames [(paused_props, 2000), (paused_props, 3000), (default_props 1, 4000)] 1000
        \<lparr>spec_elapsed = 0.3, spec_frozen = 0.3\<rparr>) = 0.6"
  by (simp add: spec_advance_def spec_reported_def paused_props_paused default_not_paused
      default_timeScale Let_def)

theorem clock_resume_counterexample:
  "reported_time (run_frames [(paused_props, 2000), (paused_props, 3000), (default_props 1, 4000)]
      running_since_1000)
   \<noteq> spec_reported False
       (spec_frames [(paused_props, 2000), (paused_props, 3000), (default_props 1, 4000)] 1000
          \<lparr>spec_elapsed = reported_time running_since_1000,
           spec_frozen = reported_time running_since_1000\<rparr>)"
proof -
  let ?fs = "[(paused_props, 2000 :: real), (paused_props, 3000)]"
  have "reported_time (update (default_props 1) 4000 (run_frames ?fs running_since_1000)) =
      (4000 * 0.001 + timeOffsetRef (run_frames ?fs running_since_1000)) * timeScale (default_props 1)"
    using update_running [OF default_not_paused] by blast
  also have "\<dots> = 1.2"
    using running_since_1000_reported
    by (simp add: run_frames_timeOffsetRef default_timeScale del: run_frames.simps)
  finally have "reported_time (run_frames (?fs @ [(default_props 1, 4000)]) running_since_1000) = 1.2"
    by (simp only: run_frames_snoc)
  then have code: "reported_time
      (run_frames [(paused_props, 2000), (paused_props, 3000), (default_props 1, 4000)]
        running_since_1000) = 1.2"
    by (simp del: run_frames.simps)
  have r: "reported_time running_since_1000 = 0.3"
    using running_since_1000_reported by blast
  show ?thesis
    unfolding code r spec_session by simp
qed


subsection \<open>The page-load progress\<close>

lemma progress_first:
  "pageLoadAnimation pr \<Longrightarrow> loadAnimationStartRef s = 0 \<Longrightarrow> 0 < t \<Longrightarrow>
     loadAnimationStartRef (update pr t s) = t \<and> reported_progress (update pr t s) = 0"
  by (simp add: update_def reported_progress_def Let_def)

lemma progress_later:
  "pageLoadAnimation pr \<Longrightarrow> 0 < loadAnimationStartRef s \<Longrightarrow>
     loadAnimationStartRef (update pr t s) = loadAnimationStartRef s \<and>
     reported_progress (update pr t s) = min ((t - loadAnimationStartRef s) / 2000) 1"
  by (simp add: update_def reported_progress_def Let_def)

lemma progress_disabled:
  "\<not> pageLoadAnimation pr \<Longrightarrow> reported_progress (update pr t s) = reported_progress s"
  by (simp add: update_def reported_progress_def Let_def)

lemma clamp_unit_mono: "x \<le> y \<Longrightarrow> clamp x 0 1 \<le> clamp y 0 1"
  by (simp add: clamp_def min_def max_def)

text \<open>Once a start is recorded, every frame at or after it reports the clamped ramp.\<close>

lemma progress_trace_started:
  assumes "pageLoadAnimation pr" and "0 < loadAnimationStartRef s"
    and "\<forall>t \<in> set ts. loadAnimationStartRef s \<le> t"
  shows "map reported_progress (update_trace pr ts s) =
         map (\<lambda>t. clamp ((t - loadAnimationStartRef s) / 2000) 0 1) ts"
  using assms
proof (induction ts arbitrary: s)
  case Nil
  then show ?case by simp
next
  case (Cons t ts)
  from Cons.prems have le: "loadAnimationStartRef s \<le> t" by simp
  from progress_later [OF Cons.prems(1,2), of t]
  have st: "loadAnimationStartRef (update pr t s) = loadAnimationStartRef s"
    and pg: "reported_progress (update pr t s) = min ((t - loadAnimationStartRef s) / 2000) 1"
    by simp_all
  have "min ((t - loadAnimationStartRef s) / 2000) 1 = clamp ((t - loadAnimationStartRef s) / 2000) 0 1"
    using le by (simp add: clamp_def max_def)
  with pg have hd: "reported_progress (update pr t s) = clamp ((t - loadAnimationStartRef s) / 2000) 0 1"
    by simp
  have "map reported_progress (update_trace pr ts (update pr t s)) =
        map (\<lambda>x. clamp ((x - loadAnimationStartRef (update pr t s)) / 2000) 0 1) ts"
    by (rule Cons.IH) (use Cons.prems in \<open>simp_all add: st\<close>)
  then show ?case by (simp add: Let_def hd st)
qed

lemma progress_trace_disabled:
  "\<not> pageLoadAnimation pr \<Longrightarrow>
     \<forall>s' \<in> set (update_trace pr ts s). reported_progress s' = reported_progress s"
  by (induction ts arbitrary: s) (simp_all add: Let_def progress_disabled)

lemma create_program_progress:
  "reported_progress (create_program pr canvas s) = (if pageLoadAnimation pr then 0 else 1)"
  by (simp add: create_program_def initial_uniforms_def reported_progress_def)

text \<open>
  Claim C5.  With the page-load animation enabled, no start recorded yet, and frames at
  non-decreasing times of which the first, \<open>t0\<close>, is positive (frame times are
  milliseconds since the page's time origin), the progress reported at a frame at time
  \<open>t\<close> is \<open>clamp ((t - t0) / 2000) 0 1\<close>; the reported values never decrease; and every
  frame at or after \<open>t0 + 2000\<close> reports exactly \<open>1\<close>.  With the animation disabled,
  every frame of a program reports the progress \<open>1\<close>.
\<close>

theorem page_load_progress:
  "(pageLoadAnimation pr \<and> loadAnimationStartRef s = 0 \<and> 0 < t0 \<and> sorted (t0 # ts) \<longrightarrow>
      map reported_progress (update_trace pr (t0 # ts) s) =
        map (\<lambda>t. clamp ((t - t0) / 2000) 0 1) (t0 # ts) \<and>
      sorted (map reported_progress (update_trace pr (t0 # ts) s)) \<and>
      (\<forall>i < length (t0 # ts). t0 + 2000 \<le> (t0 # ts) ! i \<longrightarrow>
         reported_progress (update_trace pr (t0 # ts) s ! i) = 1)) \<and>
   (\<not> pageLoadAnimation pr \<longrightarrow>
      (\<forall>s' \<in> set (update_trace pr ts (create_program pr canvas s)). reported_progress s' = 1))"
proof (intro conjI impI)
  assume h: "pageLoadAnimation pr \<and> loadAnimationStartRef s = 0 \<and> 0 < t0 \<and> sorted (t0 # ts)"
  let ?ramp = "\<lambda>t. clamp ((t - t0) / 2000) 0 1"
  let ?tr = "update_trace pr (t0 # ts) s"
  from h progress_first [of pr s t0]
  have st: "loadAnimationStartRef (update pr t0 s) = t0"
    and p0: "reported_progress (update pr t0 s) = 0"
    by simp_all
  have later: "\<forall>t \<in> set ts. loadAnimationStartRef (update pr t0 s) \<le> t"
    using h by (simp add: st)
  have "map reported_progress (update_trace pr ts (update pr t0 s)) = map ?ramp ts"
    using progress_trace_started [of pr "update pr t0 s" ts] h later by (simp add: st)
  then show eq: "map reported_progress ?tr = map ?ramp (t0 # ts)"
    by (simp add: Let_def p0 clamp_def)
  have "sorted_wrt (\<lambda>x y. ?ramp x \<le> ?ramp y) (t0 # ts)"
  proof (rule sorted_wrt_mono_rel)
    show "sorted_wrt (\<le>) (t0 # ts)" using h by simp
  next
    fix x y :: real
    assume "x \<le> y"
    then show "?ramp x \<le> ?ramp y" by (intro clamp_unit_mono) simp
  qed
  then have "sorted (map ?ramp (t0 # ts))" by (simp only: sorted_map)
  then show "sorted (map reported_progress ?tr)" by (simp only: eq)
  show "\<forall>i < length (t0 # ts). t0 + 2000 \<le> (t0 # ts) ! i \<longrightarrow> reported_progress (?tr ! i) = 1"
  proof (intro allI impI)
    fix i
    assume i: "i < length (t0 # ts)" and late: "t0 + 2000 \<le> (t0 # ts) ! i"
    have len: "length ?tr = length (t0 # ts)"
      using arg_cong [OF eq, of length] by simp
    have "reported_progress (?tr ! i) = map reported_progress ?tr ! i"
      using i len by simp
    also have "\<dots> = ?ramp ((t0 # ts) ! i)"
      using i by (simp only: eq nth_map)
    also have "\<dots> = 1"
      using late by (simp add: clamp_def)
    finally show "reported_progress (?tr ! i) = 1" .
  qed
next
  assume "\<not> pageLoadAnimation pr"
  then show "\<forall>s' \<in> set (update_trace pr ts (create_program pr canvas s)). reported_progress s' = 1"
    using progress_trace_disabled [of pr ts "create_program pr canvas s"]
    by (simp add: create_program_progress)
qed

theorem page_load_progress_witness:
  "pageLoadAnimation (default_props 1) \<and>
   loadAnimationStartRef (mount (default_props 1) (800, 600) 0) = 0 \<and>
   (0 :: real) < 16 \<and> sorted [16, 1016, 2016, 3016 :: real] \<and>
   map reported_progress
     (update_trace (default_props 1) [16, 1016, 2016, 3016] (mount (default_props 1) (800, 600) 0))
     = [0, 1 / 2, 1, 1] \<and>
   \<not> pageLoadAnimation ((default_props 1)\<lparr>pageLoadAnimation := False\<rparr>) \<and>
   reported_progress
     (update ((default_props 1)\<lparr>pageLoadAnimation := False\<rparr>) 16
        (create_program ((default_props 1)\<lparr>pageLoadAnimation := False\<rparr>) (800, 600)
           (mount (default_props 1) (800, 600) 0))) = 1"
proof -
  let ?s = "mount (default_props 1) (800, 600) 0"
  let ?off = "(default_props 1)\<lparr>pageLoadAnimation := False\<rparr>"
  have on: "pageLoadAnimation (default_props 1)" by (simp add: default_props_def)
  have fresh: "loadAnimationStartRef ?s = 0" by (simp add: mount_def)
  have times: "(0 :: real) < 16" "sorted [16, 1016, 2016, 3016 :: real]" by simp_all
  have "map reported_progress (update_trace (default_props 1) [16, 1016, 2016, 3016] ?s) =
        map (\<lambda>t. clamp ((t - 16) / 2000) 0 1) [16, 1016, 2016, 3016]"
    using page_load_progress [of "default_props 1" ?s 16 "[1016, 2016, 3016]"] on fresh times
    by blast
  also have "\<dots> = [0, 1 / 2, 1, 1]" by (simp add: clamp_def)
  finally have ramp: "map reported_progress
      (update_trace (default_props 1) [16, 1016, 2016, 3016] ?s) = [0, 1 / 2, 1, 1]" .
  have off: "\<not> pageLoadAnimation ?off" by simp
  have "\<forall>s' \<in> set (update_trace ?off [16] (create_program ?off (800, 600) ?s)).
          reported_progress s' = 1"
    using page_load_progress [of ?off ?s 16 "[16]" "(800, 600)"] off by blast
  then have one: "reported_progress (update ?off 16 (create_program ?off (800, 600) ?s)) = 1"
    by (simp add: Let_def)
  from on fresh times ramp off one show ?thesis by blast
qed


section \<open>Properties of the rasterizer\<close>

lemma tick_without_context: "\<not> context2d env \<Longrightarrow> updateLogoTexture r env s = s"
  by (simp add: updateLogoTexture_def Let_def)

lemma ticks_without_context:
  "\<forall>e \<in> set envs. \<not> context2d e \<Longrightarrow> run_ticks r envs s = s"
  by (induction envs arbitrary: s) (simp_all add: tick_without_context)

lemma tick_then_onload:
  "context2d env \<Longrightarrow> has_logoTexture s \<Longrightarrow>
     sampled_texture (img_onload (length (loading s)) (updateLogoTexture r env s)) =
       Some \<lparr>frame_width = rect_width env * r, frame_height = rect_height env * r,
             picture = snapshot env\<rparr>"
  by (simp add: updateLogoTexture_def img_onload_def sampled_texture_def Let_def nth_append)

text \<open>
  Claim C7.  A tick that gets no drawing context leaves the surface as it was: it uploads
  nothing, it starts no image load, and, the function being total and without a failure
  branch, it raises nothing.  Through any run of such ticks the draw calls keep sampling
  the bitmap uploaded before; the next tick that does get a context starts a load whose
  \<^verbatim>\<open>onload\<close> handler replaces that bitmap.
\<close>

theorem rasterizer_skips_without_context:
  "(\<not> context2d env \<longrightarrow> updateLogoTexture r env s = s) \<and>
   ((\<forall>e \<in> set envs. \<not> context2d e) \<longrightarrow>
      run_ticks r envs s = s \<and> sampled_texture (run_ticks r envs s) = sampled_texture s) \<and>
   ((\<forall>e \<in> set envs. \<not> context2d e) \<and> context2d env' \<and> has_logoTexture s \<longrightarrow>
      sampled_texture
        (img_onload (length (loading s)) (updateLogoTexture r env' (run_ticks r envs s))) =
        Some \<lparr>frame_width = rect_width env' * r, frame_height = rect_height env' * r,
              picture = snapshot env'\<rparr>)"
  by (simp add: tick_without_context ticks_without_context tick_then_onload)

theorem rasterizer_skips_without_context_witness:
  "\<not> context2d env_without_context \<and>
   updateLogoTexture 2 env_without_context stale_surface = stale_surface \<and>
   sampled_texture (run_ticks 2 [env_without_context, env_without_context] stale_surface) =
     Some \<lparr>frame_width = 1600, frame_height = 104, picture = 1\<rparr> \<and>
   context2d env_with_context \<and> has_logoTexture stale_surface \<and>
   sampled_texture
     (img_onload (length (loading stale_surface))
        (updateLogoTexture 2 env_with_context
           (run_ticks 2 [env_without_context, env_without_context] stale_surface))) =
     Some \<lparr>frame_width = 1600, frame_height = 104, picture = 3\<rparr>"
proof -
  let ?envs = "[env_without_context, env_without_context]"
  have none: "\<not> context2d env_without_context" by (simp add: env_without_context_def)
  then have all: "\<forall>e \<in> set ?envs. \<not> context2d e" by simp
  have some: "context2d env_with_context" by (simp add: env_with_context_def)
  have tex: "has_logoTexture stale_surface" by (simp add: stale_surface_def)
  note c = rasterizer_skips_without_context
    [of env_without_context 2 stale_surface ?envs env_with_context]
  from c none have one: "updateLogoTexture 2 env_without_context stale_surface = stale_surface"
    by blast
  from c all have "sampled_texture (run_ticks 2 ?envs stale_surface) = sampled_texture stale_surface"
    by blast
  then have kept: "sampled_texture (run_ticks 2 ?envs stale_surface) =
      Some \<lparr>frame_width = 1600, frame_height = 104, picture = 1\<rparr>"
    by (simp add: sampled_texture_def stale_surface_def)
  from c all some tex have "sampled_texture
     (img_onload (length (loading stale_surface))
        (updateLogoTexture 2 env_with_context (run_ticks 2 ?envs stale_surface))) =
     Some \<lparr>frame_width = rect_width env_with_context * 2,
           frame_height = rect_height env_with_context * 2,
           picture = snapshot env_with_context\<rparr>"
    by blast
  then have fresh: "sampled_texture
     (img_onload (length (loading stale_surface))
        (updateLogoTexture 2 env_with_context (run_ticks 2 ?envs stale_surface))) =
     Some \<lparr>frame_width = 1600, frame_height = 104, picture = 3\<rparr>"
    by (simp add: env_with_context_def)
  from none one kept some tex fresh show ?thesis by blast
qed

section \<open>Properties of the fragment shader\<close>

subsection \<open>Curvature\<close>

lemma barrel_flat: "uCurvature u = 0 \<Longrightarrow> barrel u uv = uv"
  by (cases uv) (simp add: barrel_def Let_def dot2_def field_simps)

text \<open>
  Claim C8.  With the curvature \<open>0\<close>, the coordinate from which \<^verbatim>\<open>main\<close> computes
  every sample point, and the coordinate of the logo band, are the interpolated surface
  coordinate itself; \<^verbatim>\<open>barrel\<close>, which \<^verbatim>\<open>main\<close> then does not call, is the identity as
  well.
\<close>

theorem curvature_zero_identity:
  "uCurvature u = 0 \<Longrightarrow>
     main_uv u vUv = vUv \<and> main_logoUv u vUv = vUv \<and> barrel u vUv = vUv"
  by (simp add: main_uv_def main_logoUv_def barrel_flat)

theorem curvature_zero_identity_witness:
  "uCurvature (initial_uniforms ((default_props 1)\<lparr>curvature := 0\<rparr>) (800, 600) (0.5, 0.5)) = 0 \<and>
   main_uv (initial_uniforms ((default_props 1)\<lparr>curvature := 0\<rparr>) (800, 600) (0.5, 0.5))
     (0.25, 0.75) = (0.25, 0.75) \<and>
   barrel (initial_uniforms ((default_props 1)\<lparr>curvature := 0\<rparr>) (800, 600) (0.5, 0.5))
     (0.25, 0.75) = (0.25, 0.75)"
proof -
  let ?u = "initial_uniforms ((default_props 1)\<lparr>curvature := 0\<rparr>) (800, 600) (0.5, 0.5)"
  have flat: "uCurvature ?u = 0" by (simp add: initial_uniforms_def)
  from curvature_zero_identity [OF flat, of "(0.25, 0.75)"] flat show ?thesis by blast
qed

subsection \<open>The pointer\<close>

lemma mouse_block_zero: "uMouseStrength u = 0 \<Longrightarrow> mouse_block u s i = i"
  by (simp add: mouse_block_def Let_def)

lemma mouse_block_off: "mouse_block (u\<lparr>uUseMouse := 0\<rparr>) s i = i"
  by (simp add: mouse_block_def)

lemma time_no_mouse: "time (u\<lparr>uUseMouse := m\<rparr>) = time u"
  by (simp add: time_def)

lemma noise_no_mouse: "noise (u\<lparr>uUseMouse := m\<rparr>) p = noise u p"
  by (simp add: noise_def time_no_mouse)

lemma fbm_no_mouse: "fbm (u\<lparr>uUseMouse := m\<rparr>) p = fbm u p"
  by (simp add: fbm_def noise_no_mouse time_no_mouse)

lemma pattern_no_mouse: "pattern (u\<lparr>uUseMouse := m\<rparr>) p = pattern u p"
  by (simp add: pattern_def fbm_no_mouse time_no_mouse)

lemma page_load_block_no_mouse:
  "page_load_block (u\<lparr>uUseMouse := m\<rparr>) s i = page_load_block u s i"
  by (simp add: page_load_block_def)

lemma digit_without_mouse:
  "uMouseStrength u = 0 \<Longrightarrow> digit u p = digit (u\<lparr>uUseMouse := 0\<rparr>) p"
  unfolding digit_def
  by (simp add: mouse_block_zero mouse_block_off pattern_no_mouse page_load_block_no_mouse)

text \<open>
  Claim C9.  With the pointer enabled and the pointer strength \<open>0\<close>, the pointer block
  of \<^verbatim>\<open>digit\<close> (the influence and the ripple scaled by it) returns the intensity it was
  given, for every cell, pointer position and time; and \<^verbatim>\<open>digit\<close> has the value it has
  with the pointer disabled.
\<close>

theorem pointer_strength_zero:
  assumes "uUseMouse u > 0.5" and "uMouseStrength u = 0"
  shows "mouse_block u s intensity = intensity \<and> digit u p = digit (u\<lparr>uUseMouse := 0\<rparr>) p"
  using assms(2) by (simp add: mouse_block_zero digit_without_mouse [symmetric])

theorem pointer_strength_zero_witness:
  "uUseMouse (initial_uniforms ((default_props 1)\<lparr>mouseStrength := 0\<rparr>) (800, 600) (0.3, 0.7)) > 0.5 \<and>
   uMouseStrength (initial_uniforms ((default_props 1)\<lparr>mouseStrength := 0\<rparr>) (800, 600) (0.3, 0.7)) = 0 \<and>
   mouse_block (initial_uniforms ((default_props 1)\<lparr>mouseStrength := 0\<rparr>) (800, 600) (0.3, 0.7))
     (0.1, 0.2) 0.4 = 0.4"
proof -
  let ?u = "initial_uniforms ((default_props 1)\<lparr>mouseStrength := 0\<rparr>) (800, 600) (0.3, 0.7)"
  have on: "uUseMouse ?u > 0.5" by (simp add: initial_uniforms_def default_props_def)
  have zero: "uMouseStrength ?u = 0" by (simp add: initial_uniforms_def)
  from pointer_strength_zero [OF on zero, where s = "(0.1, 0.2)" and intensity = "0.4"] on zero show ?thesis by blast
qed

subsection \<open>The glitch\<close>

text \<open>
  Claim C10.  The point at which \<^verbatim>\<open>getColor\<close> evaluates the digits is the point it was
  given, moved horizontally by \<open>displace p * uGlitchAmount\<close>, for every glitch amount; with
  the glitch amount \<open>0\<close> it is the point itself.
\<close>

theorem glitch_linear:
  "glitch u p = (fst p + displace u p * uGlitchAmount u, snd p) \<and>
   glitch (u\<lparr>uGlitchAmount := 0\<rparr>) p = p"
  by (simp add: glitch_def Let_def algebra_simps)


end
